theory Spec2Isabelle
  imports Complex_Main "HOL-Library.AList"
begin

section \<open>JavaScript values\<close>

text \<open>
  The handlers of \<^verbatim>\<open>backend/server.js\<close> work on the values \<^verbatim>\<open>JSON.parse\<close> and
  \<^verbatim>\<open>express.json()\<close> produce, plus \<^verbatim>\<open>undefined\<close> and the numbers arithmetic adds.
  Numbers are exact rationals with the three IEEE specials the operators can reach;
  rounding, overflow and the sign of zero are not modelled. Strings are lists of
  8-bit characters (ASCII text). An object is the list of its own enumerable
  properties; the keys of an object returned by \<^verbatim>\<open>JSON.parse\<close> are distinct, and
  the position of a property in the list carries no meaning.
\<close>

datatype jsnum = Num rat | NaN | PosInfinity | NegInfinity

datatype jsval =
    JUndefined
  | JNull
  | JBool bool
  | JNumber jsnum
  | JString string
  | JArray "jsval list"
  | JObject "(string \<times> jsval) list"

abbreviation num :: "rat \<Rightarrow> jsval" where
  "num r \<equiv> JNumber (Num r)"

text \<open>
  What the code can throw. All but the last are raised by the engine itself and
  their wording belongs to the engine; \<open>Thrown\<close> is an error object raised by
  the provider's SDK, with its \<^verbatim>\<open>message\<close> (absent when the thrown object has none).
\<close>

datatype js_error =
    CannotReadProperty jsval string
  | CannotDestructure jsval
  | CannotConvertToPrimitive
  | NotAFunction string
  | JSONSyntaxError string
  | Thrown "string option"

text \<open>
  The parts of the platform the handlers call and this repository does not define:
  the JSON codec, the two number/string conversions of the language, the wording
  of engine errors, the text of the constant \<^verbatim>\<open>SYSTEM_PROMPT\<close> (lines 20-52), and
  the calls into the generative-model SDK. \<open>JSON_stringify\<close> is the text a
  template literal shows for \<^verbatim>\<open>JSON.stringify(v)\<close>. \<open>generateContent\<close> stands for
  \<^verbatim>\<open>model.generateContent(parts)\<close>, \<^verbatim>\<open>result.response\<close> and \<^verbatim>\<open>response.text()\<close>
  together: the reply text, or what one of the three threw. \<open>startChat\<close> returns
  what \<^verbatim>\<open>chatModel.startChat({history, generationConfig: {maxOutputTokens}})\<close>
  throws, if anything; \<open>sendMessage\<close> stands for \<^verbatim>\<open>chat.sendMessage(message)\<close> on
  the session so opened, followed by \<^verbatim>\<open>result.response\<close> and \<^verbatim>\<open>response.text()\<close>.
\<close>

record runtime =
  JSON_parse :: "string \<Rightarrow> jsval option"
  JSON_stringify :: "jsval \<Rightarrow> string"
  StringToNumber :: "string \<Rightarrow> jsnum"
  NumberToString :: "rat \<Rightarrow> string"
  engine_message :: "js_error \<Rightarrow> string"
  SYSTEM_PROMPT :: string
  generateContent :: "string list \<Rightarrow> js_error + string"
  startChat :: "jsval \<Rightarrow> nat \<Rightarrow> js_error option"
  sendMessage :: "jsval \<Rightarrow> nat \<Rightarrow> jsval \<Rightarrow> js_error + string"

text \<open>Sequencing: what follows a step that threw is not evaluated.\<close>

definition and_then :: "js_error + 'a \<Rightarrow> ('a \<Rightarrow> js_error + 'b) \<Rightarrow> js_error + 'b" where
  "and_then m f = (case m of Inl e \<Rightarrow> Inl e | Inr x \<Rightarrow> f x)"

subsection \<open>Truthiness and property access\<close>

fun truthy :: "jsval \<Rightarrow> bool" where
  "truthy JUndefined = False"
| "truthy JNull = False"
| "truthy (JBool b) = b"
| "truthy (JNumber n) = (n \<noteq> Num 0 \<and> n \<noteq> NaN)"
| "truthy (JString s) = (s \<noteq> [])"
| "truthy (JArray xs) = True"
| "truthy (JObject ps) = True"

fun nullish :: "jsval \<Rightarrow> bool" where
  "nullish JUndefined = True"
| "nullish JNull = True"
| "nullish v = False"

fun digit_char :: "nat \<Rightarrow> char" where
  "digit_char d = char_of (48 + d)"

fun string_of_nat :: "nat \<Rightarrow> string" where
  "string_of_nat n =
     (if n < 10 then [digit_char n] else string_of_nat (n div 10) @ [digit_char (n mod 10)])"

text \<open>
  The own enumerable properties of a value, in the order the spread operator
  copies them: the properties of an object, the elements of an array and the
  characters of a string under their indices, nothing for the other primitives.
\<close>

fun own_props :: "jsval \<Rightarrow> (string \<times> jsval) list" where
  "own_props (JObject ps) = ps"
| "own_props (JArray xs) = zip (map string_of_nat [0..<length xs]) xs"
| "own_props (JString s) = zip (map string_of_nat [0..<length s]) (map (\<lambda>c. JString [c]) s)"
| "own_props v = []"

text \<open>
  Reading \<^verbatim>\<open>v.k\<close>. Properties inherited from the built-in prototypes (methods,
  \<^verbatim>\<open>constructor\<close>) are not modelled: no key read by the handlers names one.
\<close>

definition property :: "jsval \<Rightarrow> string \<Rightarrow> jsval" where
  "property v k =
     (case map_of (own_props v) k of
        Some x \<Rightarrow> x
      | None \<Rightarrow>
          (if k = ''length'' then
             (case v of
                JArray xs \<Rightarrow> num (of_nat (length xs))
              | JString s \<Rightarrow> num (of_nat (length s))
              | _ \<Rightarrow> JUndefined)
           else JUndefined))"

definition get_prop :: "jsval \<Rightarrow> string \<Rightarrow> js_error + jsval" where
  "get_prop v k = (if nullish v then Inl (CannotReadProperty v k) else Inr (property v k))"

text \<open>\<^verbatim>\<open>Object.hasOwn(v, k)\<close> for an enumerable property.\<close>

definition hasOwn :: "jsval \<Rightarrow> string \<Rightarrow> bool" where
  "hasOwn v k = (map_of (own_props v) k \<noteq> None)"

subsection \<open>The operators \<^verbatim>\<open>+\<close> and \<^verbatim>\<open>-\<close>\<close>

fun num_neg :: "jsnum \<Rightarrow> jsnum" where
  "num_neg (Num r) = Num (- r)"
| "num_neg NaN = NaN"
| "num_neg PosInfinity = NegInfinity"
| "num_neg NegInfinity = PosInfinity"

fun num_add :: "jsnum \<Rightarrow> jsnum \<Rightarrow> jsnum" where
  "num_add (Num a) (Num b) = Num (a + b)"
| "num_add NaN y = NaN"
| "num_add x NaN = NaN"
| "num_add PosInfinity NegInfinity = NaN"
| "num_add NegInfinity PosInfinity = NaN"
| "num_add PosInfinity y = PosInfinity"
| "num_add NegInfinity y = NegInfinity"
| "num_add (Num a) y = y"

definition num_sub :: "jsnum \<Rightarrow> jsnum \<Rightarrow> jsnum" where
  "num_sub x y = num_add x (num_neg y)"

text \<open>The results of evaluating a list of expressions in order, up to the first that throws.\<close>

fun collect :: "(js_error + 'a) list \<Rightarrow> js_error + 'a list" where
  "collect [] = Inr []"
| "collect (Inl e # ms) = Inl e"
| "collect (Inr x # ms) = (case collect ms of Inl e \<Rightarrow> Inl e | Inr xs \<Rightarrow> Inr (x # xs))"

fun join :: "string \<Rightarrow> string list \<Rightarrow> string" where
  "join sep [] = []"
| "join sep [s] = s"
| "join sep (s # t # ts) = s @ sep @ join sep (t # ts)"

text \<open>
  \<^verbatim>\<open>ToString\<close>. A plain object converts through \<^verbatim>\<open>Object.prototype.toString\<close>
  unless an own property \<^verbatim>\<open>toString\<close> (never callable in parsed JSON) hides it:
  then no conversion method yields a primitive and a TypeError is thrown. An
  array converts through \<^verbatim>\<open>join\<close>, which writes null and undefined elements as
  the empty string.
\<close>

fun ToString :: "runtime \<Rightarrow> jsval \<Rightarrow> js_error + string" where
  "ToString rt JUndefined = Inr ''undefined''"
| "ToString rt JNull = Inr ''null''"
| "ToString rt (JBool b) = Inr (if b then ''true'' else ''false'')"
| "ToString rt (JNumber (Num r)) = Inr (NumberToString rt r)"
| "ToString rt (JNumber NaN) = Inr ''NaN''"
| "ToString rt (JNumber PosInfinity) = Inr ''Infinity''"
| "ToString rt (JNumber NegInfinity) = Inr ''-Infinity''"
| "ToString rt (JString s) = Inr s"
| "ToString rt (JObject ps) =
     (if ''toString'' \<in> fst ` set ps then Inl CannotConvertToPrimitive
      else Inr ''[object Object]'')"
| "ToString rt (JArray xs) =
     (case collect (map (\<lambda>x. if nullish x then Inr [] else ToString rt x) xs) of
        Inl e \<Rightarrow> Inl e
      | Inr strs \<Rightarrow> Inr (join '','' strs))"

text \<open>
  \<^verbatim>\<open>ToPrimitive\<close>: for the values of this model the hints \<^verbatim>\<open>default\<close>, \<^verbatim>\<open>number\<close>
  and \<^verbatim>\<open>string\<close> agree, since \<^verbatim>\<open>valueOf\<close> of an object or array never yields
  a primitive.
\<close>

fun ToPrimitive :: "runtime \<Rightarrow> jsval \<Rightarrow> js_error + jsval" where
  "ToPrimitive rt (JObject ps) =
     (case ToString rt (JObject ps) of Inl e \<Rightarrow> Inl e | Inr s \<Rightarrow> Inr (JString s))"
| "ToPrimitive rt (JArray xs) =
     (case ToString rt (JArray xs) of Inl e \<Rightarrow> Inl e | Inr s \<Rightarrow> Inr (JString s))"
| "ToPrimitive rt v = Inr v"

text \<open>\<^verbatim>\<open>ToNumber\<close> and \<^verbatim>\<open>ToString\<close> of a primitive value; neither throws.\<close>

fun prim_to_number :: "runtime \<Rightarrow> jsval \<Rightarrow> jsnum" where
  "prim_to_number rt JUndefined = NaN"
| "prim_to_number rt JNull = Num 0"
| "prim_to_number rt (JBool b) = Num (if b then 1 else 0)"
| "prim_to_number rt (JNumber n) = n"
| "prim_to_number rt (JString s) = StringToNumber rt s"
| "prim_to_number rt v = NaN"

definition prim_to_string :: "runtime \<Rightarrow> jsval \<Rightarrow> string" where
  "prim_to_string rt v = (case ToString rt v of Inr s \<Rightarrow> s | Inl e \<Rightarrow> [])"

fun is_string :: "jsval \<Rightarrow> bool" where
  "is_string (JString s) = True"
| "is_string v = False"

definition js_add :: "runtime \<Rightarrow> jsval \<Rightarrow> jsval \<Rightarrow> js_error + jsval" where
  "js_add rt a b =
     and_then (ToPrimitive rt a) (\<lambda>pa.
     and_then (ToPrimitive rt b) (\<lambda>pb.
       if is_string pa \<or> is_string pb
       then Inr (JString (prim_to_string rt pa @ prim_to_string rt pb))
       else Inr (JNumber (num_add (prim_to_number rt pa) (prim_to_number rt pb)))))"

definition js_sub :: "runtime \<Rightarrow> jsval \<Rightarrow> jsval \<Rightarrow> js_error + jsval" where
  "js_sub rt a b =
     and_then (ToPrimitive rt a) (\<lambda>pa.
     and_then (ToPrimitive rt b) (\<lambda>pb.
       Inr (JNumber (num_sub (prim_to_number rt pa) (prim_to_number rt pb)))))"

section \<open>Strings\<close>

text \<open>
  \<^verbatim>\<open>s.replace(/pat/g, rep)\<close> for a pattern without metacharacters: every match,
  scanning from the left, matches not overlapping.
\<close>

function replace_all :: "string \<Rightarrow> string \<Rightarrow> string \<Rightarrow> string" where
  "replace_all pat rep [] = []"
| "replace_all pat rep (c # cs) =
     (if pat \<noteq> [] \<and> take (length pat) (c # cs) = pat
      then rep @ replace_all pat rep (drop (length pat) (c # cs))
      else c # replace_all pat rep cs)"
  by pat_completeness auto
termination
  by (relation "measure (\<lambda>(pat, rep, s). length s)") auto

text \<open>The white space and line terminators of ASCII, which \<^verbatim>\<open>trim\<close> strips.\<close>

definition is_space :: "char \<Rightarrow> bool" where
  "is_space c = (c \<in> set [CHR 0x09, CHR 0x0A, CHR 0x0B, CHR 0x0C, CHR 0x0D, CHR '' ''])"

definition trim :: "string \<Rightarrow> string" where
  "trim s = rev (dropWhile is_space (rev (dropWhile is_space s)))"

text \<open>\<^verbatim>\<open>s.includes(pat)\<close>: \<open>pat\<close> occurs in \<open>s\<close> as a contiguous run.\<close>

fun str_includes :: "string \<Rightarrow> string \<Rightarrow> bool" where
  "str_includes [] pat = (pat = [])"
| "str_includes (c # cs) pat = (take (length pat) (c # cs) = pat \<or> str_includes cs pat)"

definition lower_char :: "char \<Rightarrow> char" where
  "lower_char c =
     (let n = (of_char c :: nat) in
      if of_char CHR ''A'' \<le> n \<and> n \<le> of_char CHR ''Z'' then char_of (n + 32) else c)"

definition toLowerCase :: "string \<Rightarrow> string" where
  "toLowerCase s = map lower_char s"

section \<open>The prediction gateway\<close>

record response =
  status :: nat
  body :: jsval

text \<open>Lines 60-65: the second prompt, a template literal around the two serialisations.\<close>

definition prompt :: "runtime \<Rightarrow> jsval \<Rightarrow> jsval \<Rightarrow> string" where
  "prompt rt systemInfo inputs =
     [CHR 0x0A] @ ''      System: '' @ JSON_stringify rt systemInfo @
     [CHR 0x0A] @ ''      Sensor Inputs: '' @ JSON_stringify rt inputs @
     [CHR 0x0A] @ ''      '' @
     [CHR 0x0A] @ ''      Analyze these inputs based on the system type and provide the predictive maintenance JSON output.'' @
     [CHR 0x0A] @ ''    ''"

text \<open>Line 72: the code fences are deleted, then the text is trimmed.\<close>

definition cleanup :: "string \<Rightarrow> string" where
  "cleanup text = trim (replace_all ''```'' [] (replace_all ''```json'' [] text))"

definition point :: "rat \<Rightarrow> jsval \<Rightarrow> jsval" where
  "point c h = JObject [(''cycle'', num c), (''health'', h)]"

definition default_simulation :: jsval where
  "default_simulation =
     JObject
       [(''maintenanceNow'',
           JObject [(''riskReduction'', num 85), (''healthImprovement'', num 15), (''cost'', num 4500)]),
        (''maintenanceLater'',
           JObject [(''riskReduction'', num 10), (''healthImprovement'', num 2), (''cost'', num 28000)])]"

text \<open>
  Lines 83-89. The array literal is evaluated only when
  \<^verbatim>\<open>prediction.longTermProjection\<close> is falsy, element by element; each element
  reads \<^verbatim>\<open>prediction.healthIndex\<close> again.
\<close>

definition default_projection :: "runtime \<Rightarrow> jsval \<Rightarrow> js_error + jsval" where
  "default_projection rt prediction =
     and_then (get_prop prediction ''healthIndex'') (\<lambda>h1.
     and_then (js_add rt h1 (num 5)) (\<lambda>p25.
     and_then (get_prop prediction ''healthIndex'') (\<lambda>p50.
     and_then (get_prop prediction ''healthIndex'') (\<lambda>h3.
     and_then (js_sub rt h3 (num 10)) (\<lambda>p75.
     and_then (get_prop prediction ''healthIndex'') (\<lambda>h4.
     and_then (js_sub rt h4 (num 20)) (\<lambda>p100.
       Inr (JArray [point 0 (num 100), point 25 p25, point 50 p50,
                    point 75 p75, point 100 p100]))))))))"

definition default_cluster :: "jsval \<Rightarrow> js_error + jsval" where
  "default_cluster prediction =
     and_then (get_prop prediction ''failureMode'') (\<lambda>label.
       Inr (JObject [(''id'', JString ''CL-GEN''), (''label'', label),
                     (''description'', JString ''AI Detected Pattern'')]))"

definition default_drift :: "jsval \<Rightarrow> js_error + jsval" where
  "default_drift prediction =
     and_then (get_prop prediction ''driftDetected'') (\<lambda>detected.
       Inr (JObject [(''detected'', detected), (''severity'', JString ''Medium''),
                     (''explanation'', JString ''AI analysis of input distribution.'')]))"

text \<open>\<^verbatim>\<open>prediction.k || d\<close>: the right operand is evaluated only if the left is falsy.\<close>

definition or_default :: "jsval \<Rightarrow> string \<Rightarrow> js_error + jsval \<Rightarrow> js_error + jsval" where
  "or_default prediction k d =
     and_then (get_prop prediction k) (\<lambda>v. if truthy v then Inr v else d)"

text \<open>
  Lines 80-96: the object literal. The spread copies the own properties of the
  parsed reply; then the four properties are defined in order, each replacing
  a copied property of the same name.
\<close>

definition enhancedPrediction :: "runtime \<Rightarrow> jsval \<Rightarrow> js_error + jsval" where
  "enhancedPrediction rt prediction =
     and_then (or_default prediction ''longTermProjection'' (default_projection rt prediction)) (\<lambda>ltp.
     and_then (or_default prediction ''simulation'' (Inr default_simulation)) (\<lambda>sim.
     and_then (or_default prediction ''failureCluster'' (default_cluster prediction)) (\<lambda>fc.
     and_then (or_default prediction ''dataDrift'' (default_drift prediction)) (\<lambda>dd.
       Inr (JObject
         (AList.update ''dataDrift'' dd
         (AList.update ''failureCluster'' fc
         (AList.update ''simulation'' sim
         (AList.update ''longTermProjection'' ltp
         (own_props prediction))))))))))"

text \<open>The \<^verbatim>\<open>message\<close> property of a caught error.\<close>

definition message_of :: "runtime \<Rightarrow> js_error \<Rightarrow> string option" where
  "message_of rt e = (case e of Thrown m \<Rightarrow> m | _ \<Rightarrow> Some (engine_message rt e))"

definition error_message :: "runtime \<Rightarrow> js_error \<Rightarrow> jsval" where
  "error_message rt e = (case message_of rt e of None \<Rightarrow> JUndefined | Some m \<Rightarrow> JString m)"

definition fallback :: jsval where
  "fallback =
     JObject [(''healthIndex'', num 50), (''riskLevel'', JString ''MEDIUM''),
              (''action'', JString ''System Error - Check Backend Logs'')]"

text \<open>
  Lines 56-69: the request is taken apart, \<^verbatim>\<open>systemInfo.name\<close> is read and
  converted to a string for the log line, and the model is asked; the value is
  the text of its reply. Writing the line to the console has no part in the
  response, but reading and converting the name can throw.
\<close>

definition model_reply :: "runtime \<Rightarrow> jsval \<Rightarrow> js_error + string" where
  "model_reply rt req_body =
     (if nullish req_body then Inl (CannotDestructure req_body)
      else
        let systemInfo = property req_body ''systemInfo'';
            inputs = property req_body ''inputs''
        in
        and_then (get_prop systemInfo ''name'') (\<lambda>name.
        and_then (ToString rt name) (\<lambda>logged.
          generateContent rt [SYSTEM_PROMPT rt, prompt rt systemInfo inputs])))"

text \<open>Lines 72-74.\<close>

definition parse_reply :: "runtime \<Rightarrow> string \<Rightarrow> js_error + jsval" where
  "parse_reply rt text =
     (case JSON_parse rt (cleanup text) of
        None \<Rightarrow> Inl (JSONSyntaxError (cleanup text))
      | Some prediction \<Rightarrow> Inr prediction)"

text \<open>Lines 56-96, the body of the \<^verbatim>\<open>try\<close> block up to the value given to \<^verbatim>\<open>res.json\<close>.\<close>

definition predict_try :: "runtime \<Rightarrow> jsval \<Rightarrow> js_error + jsval" where
  "predict_try rt req_body =
     and_then (model_reply rt req_body) (\<lambda>text.
     and_then (parse_reply rt text) (\<lambda>prediction.
       enhancedPrediction rt prediction))"

text \<open>
  The handler of \<^verbatim>\<open>POST /api/predict\<close>: the value passed to \<^verbatim>\<open>res.json\<close> and the
  status it is sent with.
\<close>

definition predict :: "runtime \<Rightarrow> jsval \<Rightarrow> response" where
  "predict rt req_body =
     (case predict_try rt req_body of
        Inr enhanced \<Rightarrow> \<lparr>status = 200, body = enhanced\<rparr>
      | Inl e \<Rightarrow>
          \<lparr>status = 500,
           body = JObject [(''error'', JString ''Failed to generate prediction''),
                           (''details'', error_message rt e),
                           (''fallback'', fallback)]\<rparr>)"

section \<open>The chat gateway\<close>

datatype sdk_call = StartChat jsval nat | SendMessage jsval

text \<open>
  Lines 147-161, the body of the \<^verbatim>\<open>try\<close> block: the reply text or the error
  thrown, and the calls made into the SDK, in order. The two log lines convert
  \<^verbatim>\<open>message\<close> and \<^verbatim>\<open>history?.length\<close> to strings before the session is opened.
\<close>

definition chat_try :: "runtime \<Rightarrow> jsval \<Rightarrow> (js_error + string) \<times> sdk_call list" where
  "chat_try rt req_body =
     (if nullish req_body then (Inl (CannotDestructure req_body), [])
      else
        let message = property req_body ''message'';
            history = property req_body ''history''
        in
        case and_then (ToString rt message) (\<lambda>logged.
               ToString rt (if nullish history then JUndefined else property history ''length'')) of
          Inl e \<Rightarrow> (Inl e, [])
        | Inr logged \<Rightarrow>
            (let h = (if truthy history then history else JArray []) in
             case startChat rt h 1000 of
               Some e \<Rightarrow> (Inl e, [StartChat h 1000])
             | None \<Rightarrow>
                 (sendMessage rt h 1000 message, [StartChat h 1000, SendMessage message])))"

text \<open>Lines 169-176: \<^verbatim>\<open>error.message?.includes(...)\<close> is falsy when there is no message.\<close>

definition errorMessage :: "string option \<Rightarrow> string" where
  "errorMessage m =
     (if (case m of None \<Rightarrow> False | Some t \<Rightarrow> str_includes t ''API key'') then ''Invalid API Key''
      else if (case m of None \<Rightarrow> False | Some t \<Rightarrow> str_includes t ''SAFETY'')
        then ''Response blocked by safety filters''
      else ''Failed to process chat message'')"

definition chat :: "runtime \<Rightarrow> jsval \<Rightarrow> response \<times> sdk_call list" where
  "chat rt req_body =
     (case chat_try rt req_body of
        (Inr text, calls) \<Rightarrow> (\<lparr>status = 200, body = JObject [(''response'', JString text)]\<rparr>, calls)
      | (Inl e, calls) \<Rightarrow>
          (\<lparr>status = 500,
            body = JObject [(''error'', JString (errorMessage (message_of rt e))),
                            (''details'', error_message rt e)]\<rparr>, calls))"

section \<open>The asset directory\<close>

text \<open>
  \<^verbatim>\<open>src/context/DashboardContext.tsx\<close>. The provider's state is the list
  \<open>devices\<close>; every operation takes the list and returns the list it leaves.
  Assets arrive typed \<^verbatim>\<open>any\<close>, so a device carries whatever values the backend
  sent as \<^verbatim>\<open>id\<close> and \<^verbatim>\<open>name\<close>.
\<close>

datatype LucideIcon = Monitor | Cpu | Smartphone | Laptop | Activity

record Device =
  dev_id :: jsval
  name :: jsval
  icon :: LucideIcon

definition defaultDevices :: "Device list" where
  "defaultDevices =
     [\<lparr>dev_id = JString ''dev-01'', name = JString ''Turbine A-11'', icon = Monitor\<rparr>,
      \<lparr>dev_id = JString ''dev-02'', name = JString ''Gen. Control'', icon = Cpu\<rparr>,
      \<lparr>dev_id = JString ''dev-03'', name = JString ''Field Tablet'', icon = Smartphone\<rparr>,
      \<lparr>dev_id = JString ''dev-04'', name = JString ''Engine Monitor'', icon = Laptop\<rparr>]"

text \<open>
  What the provider calls and this file does not define: the browser's local
  storage and the shared HTTP client \<^verbatim>\<open>@/lib/api\<close>. A request yields the
  \<^verbatim>\<open>data\<close> of the response, or the error the promise rejects with.
\<close>

record browser =
  getItem :: "string \<Rightarrow> js_error + string option"
  api_get :: "string \<Rightarrow> js_error + jsval"
  api_post :: "string \<Rightarrow> jsval \<Rightarrow> js_error + jsval"
  api_delete :: "string \<Rightarrow> js_error + jsval"

text \<open>
  Lines 103-110. \<^verbatim>\<open>type?.toLowerCase()\<close> is undefined for a null or undefined
  type, the lowered string for a string, and a TypeError for any other value,
  which has no such method.
\<close>

definition getIconForAssetType :: "jsval \<Rightarrow> js_error + LucideIcon" where
  "getIconForAssetType type =
     and_then
       (case type of
          JString s \<Rightarrow> Inr (JString (toLowerCase s))
        | _ \<Rightarrow> if nullish type then Inr JUndefined else Inl (NotAFunction ''toLowerCase''))
       (\<lambda>lowered.
          let lowerType = (case lowered of JString s \<Rightarrow> if truthy lowered then s else [] | _ \<Rightarrow> [])
          in
          if str_includes lowerType ''turbine'' then Inr Monitor
          else if str_includes lowerType ''control'' then Inr Cpu
          else if str_includes lowerType ''tablet'' \<or> str_includes lowerType ''mobile'' then Inr Smartphone
          else if str_includes lowerType ''monitor'' \<or> str_includes lowerType ''computer'' then Inr Laptop
          else Inr Activity)"

text \<open>Lines 43-47: the callback of \<^verbatim>\<open>assets.map\<close>.\<close>

definition mapAsset :: "jsval \<Rightarrow> js_error + Device" where
  "mapAsset asset =
     and_then (get_prop asset ''id'') (\<lambda>i.
     and_then (get_prop asset ''name'') (\<lambda>n.
     and_then (get_prop asset ''type'') (\<lambda>t.
     and_then (getIconForAssetType t) (\<lambda>ic.
       Inr \<lparr>dev_id = i, name = n, icon = ic\<rparr>))))"

definition mappedDevices :: "jsval \<Rightarrow> js_error + Device list" where
  "mappedDevices assets =
     (case assets of
        JArray xs \<Rightarrow> collect (map mapAsset xs)
      | _ \<Rightarrow> if nullish assets then Inl (CannotReadProperty assets ''map'')
             else Inl (NotAFunction ''map''))"

text \<open>Lines 31-58: the list \<^verbatim>\<open>fetchAssets\<close> gives to \<^verbatim>\<open>setDevices\<close>.\<close>

definition fetchAssets :: "browser \<Rightarrow> Device list \<Rightarrow> Device list" where
  "fetchAssets env devices =
     (case getItem env ''forsee_access_token'' of
        Inl e \<Rightarrow> defaultDevices
      | Inr token \<Rightarrow>
          if token = None \<or> token = Some [] then defaultDevices
          else
            (case api_get env ''/assets/'' of
               Inl e \<Rightarrow> defaultDevices
             | Inr assets \<Rightarrow>
                 (case mappedDevices assets of
                    Inl e \<Rightarrow> defaultDevices
                  | Inr mapped \<Rightarrow> if length mapped > 0 then mapped else defaultDevices)))"

record NewDevice =
  new_id :: jsval
  new_name :: jsval
  new_icon :: "LucideIcon option"

text \<open>Lines 63-84.\<close>

definition addDevice :: "browser \<Rightarrow> NewDevice \<Rightarrow> Device list \<Rightarrow> Device list" where
  "addDevice env newDevice devices =
     (case api_post env ''/assets/''
             (JObject [(''name'', new_name newDevice), (''type'', JString ''custom''),
                       (''description'', JString ''Added via Dashboard''),
                       (''status'', JString ''active'')]) of
        Inl e \<Rightarrow> devices
      | Inr asset \<Rightarrow>
          (case and_then (get_prop asset ''id'') (\<lambda>i.
                and_then (get_prop asset ''name'') (\<lambda>n.
                  Inr \<lparr>dev_id = i, name = n,
                       icon = (case new_icon newDevice of Some ic \<Rightarrow> ic | None \<Rightarrow> Activity)\<rparr>)) of
             Inl e \<Rightarrow> devices
           | Inr deviceWithIcon \<Rightarrow> devices @ [deviceWithIcon]))"

text \<open>
  Lines 86-93. The argument is a string, and \<^verbatim>\<open>d.id !== id\<close> holds for every
  \<^verbatim>\<open>d.id\<close> that is not that string.
\<close>

definition removeDevice :: "browser \<Rightarrow> string \<Rightarrow> Device list \<Rightarrow> Device list" where
  "removeDevice env i devices =
     (case api_delete env (''/assets/'' @ i) of
        Inl e \<Rightarrow> devices
      | Inr r \<Rightarrow> filter (\<lambda>d. dev_id d \<noteq> JString i) devices)"

section \<open>Worked examples\<close>

text \<open>
  A request, some replies of the model with the values \<^verbatim>\<open>JSON.parse\<close> gives for
  them, and a platform for the examples. The platform answers every prompt with
  the text \<open>reply\<close>. Its tables hold what the real functions return at the
  arguments the examples reach: the parser knows the listed replies and rejects
  the only other text it is given, the serialiser knows the two parts of the
  request, numbers are written correctly when they are natural numbers, and
  the messages an example shows are worded as one version of the engine words
  them.
\<close>

definition example_request :: jsval where
  "example_request =
     JObject [(''systemInfo'', JObject [(''name'', JString ''Pump 7''), (''id'', JString ''P-7'')]),
              (''inputs'', JObject [(''temperature'', num 91)])]"


definition reply_plain :: string where
  \<open>reply_plain = ''```json'' @ [CHR 0x0A] @
     ''{"healthIndex":80,"failureMode":"Bearing wear","driftDetected":false}'' @ [CHR 0x0A] @ ''```''\<close>

definition prediction_plain :: jsval where
  "prediction_plain =
     JObject [(''healthIndex'', num 80), (''failureMode'', JString ''Bearing wear''),
              (''driftDetected'', JBool False)]"

definition reply_low :: string where
  \<open>reply_low = ''{"healthIndex":10}''\<close>

definition prediction_low :: jsval where
  "prediction_low = JObject [(''healthIndex'', num 10)]"

definition reply_full :: string where
  \<open>reply_full =
     ''{"healthIndex":80,"longTermProjection":[{"cycle":0,"health":80}],'' @
     ''"simulation":{"maintenanceNow":{"cost":1}},"failureCluster":{"id":"CL-7"},'' @
     ''"dataDrift":{"detected":true}}''\<close>

definition prediction_full :: jsval where
  "prediction_full =
     JObject [(''healthIndex'', num 80),
              (''longTermProjection'', JArray [JObject [(''cycle'', num 0), (''health'', num 80)]]),
              (''simulation'', JObject [(''maintenanceNow'', JObject [(''cost'', num 1)])]),
              (''failureCluster'', JObject [(''id'', JString ''CL-7'')]),
              (''dataDrift'', JObject [(''detected'', JBool True)])]"

definition reply_falsy :: string where
  \<open>reply_falsy =
     ''{"healthIndex":80,"longTermProjection":"","simulation":null,'' @
     ''"failureCluster":0,"dataDrift":false}''\<close>

definition prediction_falsy :: jsval where
  "prediction_falsy =
     JObject [(''healthIndex'', num 80), (''longTermProjection'', JString []),
              (''simulation'', JNull), (''failureCluster'', num 0),
              (''dataDrift'', JBool False)]"

definition reply_opaque :: string where
  \<open>reply_opaque = ''{"healthIndex":{"toString":0}}''\<close>

definition prediction_opaque :: jsval where
  "prediction_opaque = JObject [(''healthIndex'', JObject [(''toString'', num 0)])]"

definition reply_opaque_null :: string where
  \<open>reply_opaque_null = ''{"simulation":null,"healthIndex":{"toString":0}}''\<close>

definition prediction_opaque_null :: jsval where
  "prediction_opaque_null =
     JObject [(''simulation'', JNull), (''healthIndex'', JObject [(''toString'', num 0)])]"

definition reply_refusal :: string where
  "reply_refusal = ''I cannot analyze this.''"

definition example_json :: "(string \<times> jsval) list" where
  \<open>example_json =
     [(''null'', JNull),
      (''{"healthIndex":80,"failureMode":"Bearing wear","driftDetected":false}'', prediction_plain),
      (reply_low, prediction_low),
      (reply_full, prediction_full),
      (reply_falsy, prediction_falsy),
      (reply_opaque, prediction_opaque),
      (reply_opaque_null, prediction_opaque_null)]\<close>

definition example_text :: "(jsval \<times> string) list" where
  \<open>example_text =
     [(JObject [(''name'', JString ''Pump 7''), (''id'', JString ''P-7'')],
         ''{"name":"Pump 7","id":"P-7"}''),
      (JObject [(''temperature'', num 91)], ''{"temperature":91}'')]\<close>

definition example_message :: "js_error \<Rightarrow> string" where
  "example_message e =
     (case e of
        CannotReadProperty v k \<Rightarrow>
          ''Cannot read properties of '' @ (if v = JNull then ''null'' else ''undefined'') @
          '' (reading '' @ [CHR 0x27] @ k @ [CHR 0x27] @ '')''
      | CannotDestructure v \<Rightarrow> ''Cannot destructure the request body''
      | CannotConvertToPrimitive \<Rightarrow> ''Cannot convert object to primitive value''
      | NotAFunction f \<Rightarrow> f @ '' is not a function''
      | JSONSyntaxError t \<Rightarrow> ''Unexpected token '' @ take 1 t @ '' in JSON at position 0''
      | Thrown m \<Rightarrow> [])"

definition example_runtime :: "string \<Rightarrow> runtime" where
  "example_runtime reply =
     \<lparr>JSON_parse = map_of example_json,
      JSON_stringify = (\<lambda>v. case map_of example_text v of Some t \<Rightarrow> t | None \<Rightarrow> ''undefined''),
      StringToNumber = (\<lambda>s. if s = [] then Num 0 else NaN),
      NumberToString = (\<lambda>r. string_of_nat (nat \<lfloor>r\<rfloor>)),
      engine_message = example_message,
      SYSTEM_PROMPT = ''You remain an expert industrial AI predictive maintenance system.'',
      generateContent = (\<lambda>parts. Inr reply),
      startChat = (\<lambda>history maxOutputTokens. None),
      sendMessage = (\<lambda>history maxOutputTokens message. Inr ''Check the bearing temperature.'')\<rparr>"

text \<open>A platform whose chat session rejects every message with the given error message.\<close>

definition rejecting_runtime :: "string \<Rightarrow> runtime" where
  "rejecting_runtime m =
     (example_runtime [])\<lparr>sendMessage := (\<lambda>history maxOutputTokens message. Inl (Thrown (Some m)))\<rparr>"

definition example_chat :: jsval where
  "example_chat = JObject [(''message'', JString ''hello''), (''history'', JArray [])]"

definition opaque_chat :: jsval where
  "opaque_chat =
     JObject [(''message'', JObject [(''toString'', num 0)]), (''history'', JArray [])]"

text \<open>
  A browser holding the given token, whose backend knows one asset and accepts
  every request; and a browser whose every request fails.
\<close>

definition example_browser :: "string option \<Rightarrow> browser" where
  "example_browser token =
     \<lparr>getItem = (\<lambda>key. Inr (if key = ''forsee_access_token'' then token else None)),
      api_get = (\<lambda>path. Inr (JArray [JObject [(''id'', JString ''a-1''), (''name'', JString ''Pump 7''),
                                              (''type'', JString ''Pump'')]])),
      api_post = (\<lambda>path payload. Inr (JObject [(''id'', JString ''a-2''),
                                                (''name'', property payload ''name'')])),
      api_delete = (\<lambda>path. Inr JNull)\<rparr>"

definition offline_browser :: browser where
  "offline_browser =
     \<lparr>getItem = (\<lambda>key. Inr (Some ''token'')),
      api_get = (\<lambda>path. Inl (Thrown (Some ''Network Error''))),
      api_post = (\<lambda>path payload. Inl (Thrown (Some ''Network Error''))),
      api_delete = (\<lambda>path. Inl (Thrown (Some ''Network Error'')))\<rparr>"

section \<open>Properties\<close>

subsection \<open>Auxiliary facts\<close>

lemma and_then_Inl [simp]: "and_then (Inl e) f = Inl e"
  by (simp add: and_then_def)

lemma and_then_Inr [simp]: "and_then (Inr x) f = f x"
  by (simp add: and_then_def)

lemma get_prop_ok: "\<not> nullish v \<Longrightarrow> get_prop v k = Inr (property v k)"
  by (simp add: get_prop_def)

lemma get_prop_nullish: "nullish v \<Longrightarrow> get_prop v k = Inl (CannotReadProperty v k)"
  by (simp add: get_prop_def)

lemma property_object:
  "property (JObject ps) k = (case map_of ps k of Some x \<Rightarrow> x | None \<Rightarrow> JUndefined)"
  by (simp add: property_def split: option.splits)

lemma property_update:
  "property (JObject (AList.update k v ps)) k' =
     (if k' = k then v else property (JObject ps) k')"
  by (simp add: property_object update_conv')

lemma missing_property:
  "\<not> hasOwn p k \<Longrightarrow> k \<noteq> ''length'' \<Longrightarrow> property p k = JUndefined"
  by (simp add: hasOwn_def property_def)

lemma or_default_ok:
  "\<not> nullish p \<Longrightarrow>
   or_default p k d = (if truthy (property p k) then Inr (property p k) else d)"
  by (simp add: or_default_def get_prop_ok)

lemma ToPrimitive_num [simp]: "ToPrimitive rt (JNumber n) = Inr (JNumber n)"
  by simp

lemma js_add_num: "js_add rt (JNumber a) (JNumber b) = Inr (JNumber (num_add a b))"
  by (simp add: js_add_def)

lemma js_sub_num: "js_sub rt (JNumber a) (JNumber b) = Inr (JNumber (num_sub a b))"
  by (simp add: js_sub_def)

lemma prim_ToPrimitive:
  "ToPrimitive rt v = Inr pv \<Longrightarrow> ToPrimitive rt pv = Inr pv"
  by (cases v) (auto split: sum.splits)




lemma predict_ok:
  "model_reply rt req_body = Inr text \<Longrightarrow> JSON_parse rt (cleanup text) = Some prediction \<Longrightarrow>
   enhancedPrediction rt prediction = Inr ep \<Longrightarrow>
   predict rt req_body = \<lparr>status = 200, body = ep\<rparr>"
  by (simp add: predict_def predict_try_def parse_reply_def)

lemma enhancedPrediction_ok:
  assumes "\<not> nullish p"
  shows "enhancedPrediction rt p =
     and_then (if truthy (property p ''longTermProjection'')
               then Inr (property p ''longTermProjection'') else default_projection rt p) (\<lambda>ltp.
       Inr (JObject
         (AList.update ''dataDrift''
            (if truthy (property p ''dataDrift'') then property p ''dataDrift''
             else JObject [(''detected'', property p ''driftDetected''),
                           (''severity'', JString ''Medium''),
                           (''explanation'', JString ''AI analysis of input distribution.'')])
         (AList.update ''failureCluster''
            (if truthy (property p ''failureCluster'') then property p ''failureCluster''
             else JObject [(''id'', JString ''CL-GEN''), (''label'', property p ''failureMode''),
                           (''description'', JString ''AI Detected Pattern'')])
         (AList.update ''simulation''
            (if truthy (property p ''simulation'') then property p ''simulation''
             else default_simulation)
         (AList.update ''longTermProjection'' ltp (own_props p)))))))"
  using assms
  by (simp add: enhancedPrediction_def or_default_ok default_cluster_def default_drift_def
      get_prop_ok and_then_def split: sum.splits)

lemma enhancedPrediction_nullish:
  "nullish p \<Longrightarrow> enhancedPrediction rt p = Inl (CannotReadProperty p ''longTermProjection'')"
  by (simp add: enhancedPrediction_def or_default_def get_prop_nullish)

lemma property_nullish: "nullish p \<Longrightarrow> property p k = JUndefined"
  by (cases p) (simp_all add: property_def)

lemma enhancedPrediction_has_projection:
  assumes "enhancedPrediction rt p = Inr ep"
  shows "hasOwn ep ''longTermProjection''"
proof -
  have nn: "\<not> nullish p"
    using assms by (auto simp: enhancedPrediction_nullish)
  show ?thesis
    using assms unfolding enhancedPrediction_ok [OF nn]
    by (auto simp: and_then_def hasOwn_def update_conv' split: sum.splits)
qed

lemma predict_success:
  assumes "status (predict rt req_body) = 200"
  shows "\<exists>text p. model_reply rt req_body = Inr text \<and> JSON_parse rt (cleanup text) = Some p \<and>
           enhancedPrediction rt p = Inr (body (predict rt req_body))"
  using assms
  by (auto simp: predict_def predict_try_def parse_reply_def and_then_def
      split: sum.splits option.splits)


lemma str_includes_iff: "str_includes s pat \<longleftrightarrow> (\<exists>u v. s = u @ pat @ v)"
proof (induction s)
  case Nil
  then show ?case by auto
next
  case (Cons c cs)
  have "(\<exists>u v. c # cs = u @ pat @ v) \<longleftrightarrow>
        (\<exists>v. c # cs = pat @ v) \<or> (\<exists>u v. cs = u @ pat @ v)"
  proof
    assume "\<exists>u v. c # cs = u @ pat @ v"
    then obtain u v where uv: "c # cs = u @ pat @ v" by blast
    show "(\<exists>v. c # cs = pat @ v) \<or> (\<exists>u v. cs = u @ pat @ v)"
    proof (cases u)
      case Nil
      with uv show ?thesis by auto
    next
      case (Cons a u')
      with uv have "cs = u' @ pat @ v" by simp
      then show ?thesis by blast
    qed
  next
    assume "(\<exists>v. c # cs = pat @ v) \<or> (\<exists>u v. cs = u @ pat @ v)"
    then show "\<exists>u v. c # cs = u @ pat @ v"
    proof
      assume "\<exists>v. c # cs = pat @ v"
      then obtain v where "c # cs = [] @ pat @ v" by auto
      then show ?thesis by blast
    next
      assume "\<exists>u v. cs = u @ pat @ v"
      then obtain u v where "cs = u @ pat @ v" by blast
      then have "c # cs = (c # u) @ pat @ v" by simp
      then show ?thesis by blast
    qed
  qed
  moreover have "take (length pat) (c # cs) = pat \<longleftrightarrow> (\<exists>v. c # cs = pat @ v)"
    by (metis append_eq_conv_conj append_take_drop_id)
  ultimately show ?case using Cons.IH by simp
qed

subsection \<open>The prediction gateway\<close>




text \<open>
  C2. When the values of \<^verbatim>\<open>longTermProjection\<close>, \<^verbatim>\<open>simulation\<close>, \<^verbatim>\<open>failureCluster\<close>
  and \<^verbatim>\<open>dataDrift\<close> in the model's reply are all truthy, the handler answers 200,
  these four properties of the result are those of the reply, and the result has
  exactly the own properties of the reply, each with the value the reply gives it.
\<close>

theorem predict_passes_truthy_fields:
  assumes reply: "model_reply rt req_body = Inr text"
    and parsed: "JSON_parse rt (cleanup text) = Some prediction"
    and ltp: "truthy (property prediction ''longTermProjection'')"
    and sim: "truthy (property prediction ''simulation'')"
    and fc: "truthy (property prediction ''failureCluster'')"
    and dd: "truthy (property prediction ''dataDrift'')"
  shows "status (predict rt req_body) = 200 \<and>
         property (body (predict rt req_body)) ''longTermProjection'' =
           property prediction ''longTermProjection'' \<and>
         property (body (predict rt req_body)) ''simulation'' = property prediction ''simulation'' \<and>
         property (body (predict rt req_body)) ''failureCluster'' =
           property prediction ''failureCluster'' \<and>
         property (body (predict rt req_body)) ''dataDrift'' = property prediction ''dataDrift'' \<and>
         (\<forall>k. map_of (own_props (body (predict rt req_body))) k = map_of (own_props prediction) k)"
proof -
  have nn: "\<not> nullish prediction"
    using ltp by (auto simp: property_nullish)
  have own: "map_of (own_props prediction) k = Some (property prediction k)"
    if "truthy (property prediction k)" and "k \<noteq> ''length''" for k
    using that by (auto simp: property_def split: option.splits)
  define ep where "ep = JObject
         (AList.update ''dataDrift'' (property prediction ''dataDrift'')
         (AList.update ''failureCluster'' (property prediction ''failureCluster'')
         (AList.update ''simulation'' (property prediction ''simulation'')
         (AList.update ''longTermProjection'' (property prediction ''longTermProjection'')
            (own_props prediction)))))"
  have ep: "enhancedPrediction rt prediction = Inr ep"
    using ltp sim fc dd by (simp add: enhancedPrediction_ok [OF nn] ep_def)
  have resp: "predict rt req_body = \<lparr>status = 200, body = ep\<rparr>"
    by (rule predict_ok [OF reply parsed ep])
  have four: "property ep ''longTermProjection'' = property prediction ''longTermProjection''"
    "property ep ''simulation'' = property prediction ''simulation''"
    "property ep ''failureCluster'' = property prediction ''failureCluster''"
    "property ep ''dataDrift'' = property prediction ''dataDrift''"
    by (simp_all add: ep_def property_update)
  have frame: "map_of (own_props ep) k = map_of (own_props prediction) k" for k
    using own [OF ltp] own [OF sim] own [OF fc] own [OF dd]
    by (simp add: ep_def update_conv')
  from resp four frame show ?thesis by simp
qed

theorem predict_passes_truthy_fields_witness:
  "hasOwn prediction_full ''longTermProjection'' \<and> hasOwn prediction_full ''simulation'' \<and>
   hasOwn prediction_full ''failureCluster'' \<and> hasOwn prediction_full ''dataDrift'' \<and>
   status (predict (example_runtime reply_full) example_request) = 200 \<and>
   property (body (predict (example_runtime reply_full) example_request)) ''longTermProjection'' =
     JArray [JObject [(''cycle'', num 0), (''health'', num 80)]] \<and>
   property (body (predict (example_runtime reply_full) example_request)) ''simulation'' =
     JObject [(''maintenanceNow'', JObject [(''cost'', num 1)])] \<and>
   property (body (predict (example_runtime reply_full) example_request)) ''failureCluster'' =
     JObject [(''id'', JString ''CL-7'')] \<and>
   property (body (predict (example_runtime reply_full) example_request)) ''dataDrift'' =
     JObject [(''detected'', JBool True)] \<and>
   map_of (own_props (body (predict (example_runtime reply_full) example_request))) ''healthIndex'' =
     Some (num 80)"
proof -
  have h1: "model_reply (example_runtime reply_full) example_request = Inr reply_full"
    by code_simp
  have h2: "JSON_parse (example_runtime reply_full) (cleanup reply_full) = Some prediction_full"
    by code_simp
  have p1: "property prediction_full ''longTermProjection'' =
              JArray [JObject [(''cycle'', num 0), (''health'', num 80)]]" by code_simp
  have p2: "property prediction_full ''simulation'' =
              JObject [(''maintenanceNow'', JObject [(''cost'', num 1)])]" by code_simp
  have p3: "property prediction_full ''failureCluster'' = JObject [(''id'', JString ''CL-7'')]"
    by code_simp
  have p4: "property prediction_full ''dataDrift'' = JObject [(''detected'', JBool True)]"
    by code_simp
  have p5: "map_of (own_props prediction_full) ''healthIndex'' = Some (num 80)" by code_simp
  have own: "hasOwn prediction_full ''longTermProjection''" "hasOwn prediction_full ''simulation''"
    "hasOwn prediction_full ''failureCluster''" "hasOwn prediction_full ''dataDrift''"
    by code_simp+
  have t: "truthy (property prediction_full ''longTermProjection'')"
    "truthy (property prediction_full ''simulation'')"
    "truthy (property prediction_full ''failureCluster'')"
    "truthy (property prediction_full ''dataDrift'')"
    by (simp_all add: p1 p2 p3 p4)
  from predict_passes_truthy_fields [OF h1 h2 t] own show ?thesis
    by (simp add: p1 p2 p3 p4 p5)
qed

text \<open>
  A reply that holds all four properties, \<^verbatim>\<open>dataDrift\<close> with the value false:
  the result carries the placeholder in its place.
\<close>

theorem predict_falsy_field_counterexample:
  "model_reply (example_runtime reply_falsy) example_request = Inr reply_falsy \<and>
   JSON_parse (example_runtime reply_falsy) (cleanup reply_falsy) = Some prediction_falsy \<and>
   hasOwn prediction_falsy ''longTermProjection'' \<and> hasOwn prediction_falsy ''simulation'' \<and>
   hasOwn prediction_falsy ''failureCluster'' \<and> hasOwn prediction_falsy ''dataDrift'' \<and>
   property prediction_falsy ''dataDrift'' = JBool False \<and>
   status (predict (example_runtime reply_falsy) example_request) = 200 \<and>
   property (body (predict (example_runtime reply_falsy) example_request)) ''dataDrift'' =
     JObject [(''detected'', JUndefined), (''severity'', JString ''Medium''),
              (''explanation'', JString ''AI analysis of input distribution.'')]"
  by code_simp

text \<open>
  C3. When the reply, with the code fences deleted and trimmed, is not JSON, the
  handler answers 500 with \<^verbatim>\<open>error\<close>, the parser's message as \<^verbatim>\<open>details\<close> and the
  fixed \<^verbatim>\<open>fallback\<close> object. No response with status 200 is that fallback object:
  the body of every such response is the enhanced form of the parsed reply.
\<close>

theorem predict_non_json_reply:
  assumes reply: "model_reply rt req_body = Inr text"
    and not_json: "JSON_parse rt (cleanup text) = None"
  shows "predict rt req_body =
           \<lparr>status = 500,
            body = JObject
              [(''error'', JString ''Failed to generate prediction''),
               (''details'', JString (engine_message rt (JSONSyntaxError (cleanup text)))),
               (''fallback'',
                  JObject [(''healthIndex'', num 50), (''riskLevel'', JString ''MEDIUM''),
                           (''action'', JString ''System Error - Check Backend Logs'')])]\<rparr> \<and>
         (\<forall>rt' req'. status (predict rt' req') = 200 \<longrightarrow>
            body (predict rt' req') \<noteq>
              JObject [(''healthIndex'', num 50), (''riskLevel'', JString ''MEDIUM''),
                       (''action'', JString ''System Error - Check Backend Logs'')] \<and>
            (\<exists>text' p. model_reply rt' req' = Inr text' \<and>
               JSON_parse rt' (cleanup text') = Some p \<and>
               enhancedPrediction rt' p = Inr (body (predict rt' req'))))"
proof -
  have "predict_try rt req_body = Inl (JSONSyntaxError (cleanup text))"
    using reply not_json by (simp add: predict_try_def parse_reply_def)
  then have first: "predict rt req_body =
           \<lparr>status = 500,
            body = JObject
              [(''error'', JString ''Failed to generate prediction''),
               (''details'', JString (engine_message rt (JSONSyntaxError (cleanup text)))),
               (''fallback'',
                  JObject [(''healthIndex'', num 50), (''riskLevel'', JString ''MEDIUM''),
                           (''action'', JString ''System Error - Check Backend Logs'')])]\<rparr>"
    by (simp add: predict_def error_message_def message_of_def fallback_def)
  have second: "body (predict rt' req') \<noteq>
              JObject [(''healthIndex'', num 50), (''riskLevel'', JString ''MEDIUM''),
                       (''action'', JString ''System Error - Check Backend Logs'')] \<and>
            (\<exists>text' p. model_reply rt' req' = Inr text' \<and>
               JSON_parse rt' (cleanup text') = Some p \<and>
               enhancedPrediction rt' p = Inr (body (predict rt' req')))"
    if ok: "status (predict rt' req') = 200" for rt' req'
  proof -
    from predict_success [OF ok] obtain text' p where
      tp: "model_reply rt' req' = Inr text'" "JSON_parse rt' (cleanup text') = Some p"
        "enhancedPrediction rt' p = Inr (body (predict rt' req'))"
      by blast
    from enhancedPrediction_has_projection [OF tp(3)]
    have "hasOwn (body (predict rt' req')) ''longTermProjection''" .
    moreover have "\<not> hasOwn (JObject [(''healthIndex'', num 50), (''riskLevel'', JString ''MEDIUM''),
                       (''action'', JString ''System Error - Check Backend Logs'')]) ''longTermProjection''"
      by (simp add: hasOwn_def)
    ultimately have "body (predict rt' req') \<noteq>
              JObject [(''healthIndex'', num 50), (''riskLevel'', JString ''MEDIUM''),
                       (''action'', JString ''System Error - Check Backend Logs'')]"
      by metis
    with tp show ?thesis by blast
  qed
  from first second show ?thesis by blast
qed

theorem predict_non_json_reply_witness:
  "JSON_parse (example_runtime reply_refusal) (cleanup reply_refusal) = None \<and>
   predict (example_runtime reply_refusal) example_request =
     \<lparr>status = 500,
      body = JObject
        [(''error'', JString ''Failed to generate prediction''),
         (''details'', JString ''Unexpected token I in JSON at position 0''),
         (''fallback'',
            JObject [(''healthIndex'', num 50), (''riskLevel'', JString ''MEDIUM''),
                     (''action'', JString ''System Error - Check Backend Logs'')])]\<rparr> \<and>
   status (predict (example_runtime reply_plain) example_request) = 200 \<and>
   body (predict (example_runtime reply_plain) example_request) \<noteq>
     JObject [(''healthIndex'', num 50), (''riskLevel'', JString ''MEDIUM''),
              (''action'', JString ''System Error - Check Backend Logs'')]"
proof -
  have h1: "model_reply (example_runtime reply_refusal) example_request = Inr reply_refusal"
    by code_simp
  have h2: "JSON_parse (example_runtime reply_refusal) (cleanup reply_refusal) = None"
    by code_simp
  have ok: "status (predict (example_runtime reply_plain) example_request) = 200"
    by code_simp
  have em: "engine_message (example_runtime reply_refusal) (JSONSyntaxError (cleanup reply_refusal))
              = ''Unexpected token I in JSON at position 0''"
    by code_simp
  from predict_non_json_reply [OF h1 h2] h2 ok em show ?thesis
    by simp
qed

text \<open>
  C4. When \<^verbatim>\<open>longTermProjection\<close> is missing from the model's reply and its
  \<^verbatim>\<open>healthIndex\<close> is a number \<open>n\<close> below 20, the projection of the result ends with
  the health value \<open>n - 20\<close>, which is negative: nothing clamps the values to the
  range from 0 to 100.
\<close>

theorem predict_projection_unclamped:
  assumes reply: "model_reply rt req_body = Inr text"
    and parsed: "JSON_parse rt (cleanup text) = Some prediction"
    and no_ltp: "\<not> hasOwn prediction ''longTermProjection''"
    and health: "property prediction ''healthIndex'' = num n"
    and low: "n < 20"
  shows "status (predict rt req_body) = 200 \<and>
         property (body (predict rt req_body)) ''longTermProjection'' =
           JArray [JObject [(''cycle'', num 0), (''health'', num 100)],
                   JObject [(''cycle'', num 25), (''health'', num (n + 5))],
                   JObject [(''cycle'', num 50), (''health'', num n)],
                   JObject [(''cycle'', num 75), (''health'', num (n - 10))],
                   JObject [(''cycle'', num 100), (''health'', num (n - 20))]] \<and>
         n - 20 < 0"
proof -
  have nn: "\<not> nullish prediction"
    using health by (auto simp: property_nullish)
  have dp: "default_projection rt prediction =
      Inr (JArray [point 0 (num 100), point 25 (num (n + 5)), point 50 (num n),
                   point 75 (num (n - 10)), point 100 (num (n - 20))])"
    by (simp add: default_projection_def get_prop_ok [OF nn] health js_add_num js_sub_num
        num_sub_def)
  have falsy: "\<not> truthy (property prediction ''longTermProjection'')"
    using no_ltp by (simp add: missing_property)
  obtain ep where ep: "enhancedPrediction rt prediction = Inr ep"
    and ltp: "property ep ''longTermProjection'' =
      JArray [point 0 (num 100), point 25 (num (n + 5)), point 50 (num n),
              point 75 (num (n - 10)), point 100 (num (n - 20))]"
    using falsy dp by (simp add: enhancedPrediction_ok [OF nn] property_update)
  have "predict rt req_body = \<lparr>status = 200, body = ep\<rparr>"
    by (rule predict_ok [OF reply parsed ep])
  with ltp low show ?thesis
    by (simp add: point_def)
qed

theorem predict_projection_unclamped_witness:
  "\<not> hasOwn prediction_low ''longTermProjection'' \<and> \<not> hasOwn prediction_low ''simulation'' \<and>
   \<not> hasOwn prediction_low ''failureCluster'' \<and> \<not> hasOwn prediction_low ''dataDrift'' \<and>
   property prediction_low ''healthIndex'' = num 10 \<and>
   status (predict (example_runtime reply_low) example_request) = 200 \<and>
   property (body (predict (example_runtime reply_low) example_request)) ''longTermProjection'' =
     JArray [JObject [(''cycle'', num 0), (''health'', num 100)],
             JObject [(''cycle'', num 25), (''health'', num 15)],
             JObject [(''cycle'', num 50), (''health'', num 10)],
             JObject [(''cycle'', num 75), (''health'', num 0)],
             JObject [(''cycle'', num 100), (''health'', num (- 10))]]"
proof -
  have h1: "model_reply (example_runtime reply_low) example_request = Inr reply_low"
    by code_simp
  have h2: "JSON_parse (example_runtime reply_low) (cleanup reply_low) = Some prediction_low"
    by code_simp
  have own: "\<not> hasOwn prediction_low ''longTermProjection''" "\<not> hasOwn prediction_low ''simulation''"
    "\<not> hasOwn prediction_low ''failureCluster''" "\<not> hasOwn prediction_low ''dataDrift''"
    by code_simp+
  have h: "property prediction_low ''healthIndex'' = num 10" by code_simp
  have l: "(10::rat) < 20" by simp
  from predict_projection_unclamped [OF h1 h2 own(1) h l] own h show ?thesis
    by simp
qed




subsection \<open>The chat gateway\<close>

text \<open>
  C5. Whenever the \<^verbatim>\<open>try\<close> block of the chat handler throws an error \<open>e\<close>, the
  response has status 500, its \<^verbatim>\<open>details\<close> is the message of \<open>e\<close> (undefined when
  \<open>e\<close> has none), and its \<^verbatim>\<open>error\<close> is \<^verbatim>\<open>Invalid API Key\<close> when the message
  contains \<^verbatim>\<open>API key\<close>, otherwise \<^verbatim>\<open>Response blocked by safety filters\<close> when it
  contains \<^verbatim>\<open>SAFETY\<close>, otherwise \<^verbatim>\<open>Failed to process chat message\<close>.
\<close>

theorem chat_error_classification:
  assumes failing: "fst (chat_try rt req_body) = Inl e"
  shows "status (fst (chat rt req_body)) = 500 \<and>
         property (body (fst (chat rt req_body))) ''details'' =
           (case message_of rt e of Some m \<Rightarrow> JString m | None \<Rightarrow> JUndefined) \<and>
         property (body (fst (chat rt req_body))) ''error'' =
           JString
             (if \<exists>m u v. message_of rt e = Some m \<and> m = u @ ''API key'' @ v
                then ''Invalid API Key''
              else if \<exists>m u v. message_of rt e = Some m \<and> m = u @ ''SAFETY'' @ v
                then ''Response blocked by safety filters''
              else ''Failed to process chat message'')"
proof -
  obtain calls where ct: "chat_try rt req_body = (Inl e, calls)"
    using failing by (cases "chat_try rt req_body") simp
  have resp: "fst (chat rt req_body) =
      \<lparr>status = 500,
       body = JObject [(''error'', JString (errorMessage (message_of rt e))),
                       (''details'', error_message rt e)]\<rparr>"
    by (simp add: chat_def ct)
  have cls: "errorMessage (message_of rt e) =
      (if \<exists>m u v. message_of rt e = Some m \<and> m = u @ ''API key'' @ v
         then ''Invalid API Key''
       else if \<exists>m u v. message_of rt e = Some m \<and> m = u @ ''SAFETY'' @ v
         then ''Response blocked by safety filters''
       else ''Failed to process chat message'')"
    by (cases "message_of rt e") (simp_all add: errorMessage_def str_includes_iff)
  show ?thesis
    by (simp add: resp property_object error_message_def cls)
qed

theorem chat_error_classification_witness:
  "status (fst (chat (rejecting_runtime ''API key not valid. Please pass a valid API key.'')
                 example_chat)) = 500 \<and>
   property (body (fst (chat (rejecting_runtime ''API key not valid. Please pass a valid API key.'')
                          example_chat))) ''error'' = JString ''Invalid API Key'' \<and>
   property (body (fst (chat (rejecting_runtime ''API key not valid. Please pass a valid API key.'')
                          example_chat))) ''details'' =
     JString ''API key not valid. Please pass a valid API key.''"
proof -
  have h: "fst (chat_try (rejecting_runtime ''API key not valid. Please pass a valid API key.'')
                  example_chat) =
           Inl (Thrown (Some ''API key not valid. Please pass a valid API key.''))"
    by code_simp
  have m: "message_of (rejecting_runtime ''API key not valid. Please pass a valid API key.'')
             (Thrown (Some ''API key not valid. Please pass a valid API key.'')) =
           Some ''API key not valid. Please pass a valid API key.''"
    by (simp add: message_of_def)
  have inc: "str_includes ''API key not valid. Please pass a valid API key.'' ''API key''"
    by code_simp
  then obtain u v where "''API key not valid. Please pass a valid API key.'' = u @ ''API key'' @ v"
    unfolding str_includes_iff by blast
  with m have ex: "\<exists>m u v.
      message_of (rejecting_runtime ''API key not valid. Please pass a valid API key.'')
        (Thrown (Some ''API key not valid. Please pass a valid API key.'')) = Some m \<and>
      m = u @ ''API key'' @ v"
    by blast
  from chat_error_classification [OF h, unfolded if_P [OF ex]] show ?thesis
    by (simp add: m)
qed

text \<open>
  C6. Take a request whose body is an object, whose \<^verbatim>\<open>message\<close> the log line can
  convert to a string (every string, number, boolean, null and undefined can be),
  and whose \<^verbatim>\<open>history\<close> is undefined or the empty array. The handler throws
  nothing of its own: the session is opened with the empty history, and unless
  opening it fails the message is sent to it; a reply text comes back as the
  response with status 200.
\<close>

theorem chat_without_history:
  assumes body_ok: "\<not> nullish req_body"
    and loggable: "ToString rt (property req_body ''message'') = Inr shown"
    and no_history: "property req_body ''history'' = JUndefined \<or>
                     property req_body ''history'' = JArray []"
  shows "chat_try rt req_body =
           (case startChat rt (JArray []) 1000 of
              Some e \<Rightarrow> (Inl e, [StartChat (JArray []) 1000])
            | None \<Rightarrow>
                (sendMessage rt (JArray []) 1000 (property req_body ''message''),
                 [StartChat (JArray []) 1000, SendMessage (property req_body ''message'')])) \<and>
         (startChat rt (JArray []) 1000 = None \<longrightarrow>
            snd (chat rt req_body) =
              [StartChat (JArray []) 1000, SendMessage (property req_body ''message'')] \<and>
            (\<forall>text. sendMessage rt (JArray []) 1000 (property req_body ''message'') = Inr text \<longrightarrow>
               fst (chat rt req_body) =
                 \<lparr>status = 200, body = JObject [(''response'', JString text)]\<rparr>))"
proof -
  have h: "(if truthy (property req_body ''history'') then property req_body ''history''
            else JArray []) = JArray []"
    using no_history by auto
  have nn: "nullish req_body = False"
    using body_ok by simp
  have len: "property (JArray []) ''length'' = num 0"
    by (simp add: property_def)
  have "\<exists>l. ToString rt (if nullish (property req_body ''history'') then JUndefined
                          else property (property req_body ''history'') ''length'') = Inr l"
    using no_history len by auto
  then obtain l where logged:
    "and_then (ToString rt (property req_body ''message'')) (\<lambda>logged.
       ToString rt (if nullish (property req_body ''history'') then JUndefined
                    else property (property req_body ''history'') ''length'')) = Inr l"
    using loggable by auto
  have ct: "chat_try rt req_body =
           (case startChat rt (JArray []) 1000 of
              Some e \<Rightarrow> (Inl e, [StartChat (JArray []) 1000])
            | None \<Rightarrow>
                (sendMessage rt (JArray []) 1000 (property req_body ''message''),
                 [StartChat (JArray []) 1000, SendMessage (property req_body ''message'')]))"
    unfolding chat_try_def Let_def logged h nn by simp
  have "snd (chat rt req_body) = snd (chat_try rt req_body)"
    by (simp add: chat_def split: prod.splits sum.splits)
  with ct show ?thesis
    by (auto simp: chat_def split: sum.splits)
qed

theorem chat_without_history_witness:
  "property example_chat ''history'' = JArray [] \<and>
   chat (example_runtime []) example_chat =
     (\<lparr>status = 200, body = JObject [(''response'', JString ''Check the bearing temperature.'')]\<rparr>,
      [StartChat (JArray []) 1000, SendMessage (JString ''hello'')]) \<and>
   property (JObject [(''message'', JString ''hello'')]) ''history'' = JUndefined \<and>
   chat (example_runtime []) (JObject [(''message'', JString ''hello'')]) =
     (\<lparr>status = 200, body = JObject [(''response'', JString ''Check the bearing temperature.'')]\<rparr>,
      [StartChat (JArray []) 1000, SendMessage (JString ''hello'')])"
proof -
  have a1: "\<not> nullish example_chat" by code_simp
  have a2: "property example_chat ''history'' = JArray []" by code_simp
  have m1: "property example_chat ''message'' = JString ''hello''" by code_simp
  have b1: "\<not> nullish (JObject [(''message'', JString ''hello'')])" by simp
  have b2: "property (JObject [(''message'', JString ''hello'')]) ''history'' = JUndefined"
    by code_simp
  have m2: "property (JObject [(''message'', JString ''hello'')]) ''message'' = JString ''hello''"
    by code_simp
  have s: "startChat (example_runtime []) (JArray []) 1000 = None"
    by (simp add: example_runtime_def)
  have t: "sendMessage (example_runtime []) (JArray []) 1000 (JString ''hello'') =
             Inr ''Check the bearing temperature.''"
    by (simp add: example_runtime_def)
  have l1: "ToString (example_runtime []) (property example_chat ''message'') = Inr ''hello''"
    by (simp add: m1)
  have l2: "ToString (example_runtime [])
              (property (JObject [(''message'', JString ''hello'')]) ''message'') = Inr ''hello''"
    by (simp add: m2)
  from chat_without_history [OF a1 l1 disjI2 [OF a2]] chat_without_history [OF b1 l2 disjI1 [OF b2]]
  show ?thesis
    using a2 b2 by (simp add: s t m1 m2 prod_eq_iff)
qed

text \<open>
  A message that is an object with a property \<^verbatim>\<open>toString\<close>: the first log line
  throws, and nothing is sent to the model although the history is the empty array.
\<close>

theorem chat_opaque_message_counterexample:
  "\<not> nullish opaque_chat \<and> property opaque_chat ''history'' = JArray [] \<and>
   chat (example_runtime []) opaque_chat =
     (\<lparr>status = 500,
       body = JObject [(''error'', JString ''Failed to process chat message''),
                       (''details'', JString ''Cannot convert object to primitive value'')]\<rparr>,
      [])"
  by code_simp

subsection \<open>The asset directory\<close>

text \<open>
  C7. When local storage holds no \<^verbatim>\<open>forsee_access_token\<close>, \<^verbatim>\<open>fetchAssets\<close> sets
  \<open>devices\<close> to the four default devices, named Turbine A-11, Gen. Control,
  Field Tablet and Engine Monitor in that order, whatever the list held before
  and whatever the backend would have answered.
\<close>

theorem fetchAssets_without_token:
  assumes no_token: "getItem env ''forsee_access_token'' = Inr None"
  shows "fetchAssets env devices = defaultDevices \<and>
         map name defaultDevices =
           [JString ''Turbine A-11'', JString ''Gen. Control'', JString ''Field Tablet'',
            JString ''Engine Monitor'']"
  using no_token by (simp add: fetchAssets_def defaultDevices_def)

theorem fetchAssets_without_token_witness:
  "getItem (example_browser None) ''forsee_access_token'' = Inr None \<and>
   map name (fetchAssets (example_browser None) []) =
     [JString ''Turbine A-11'', JString ''Gen. Control'', JString ''Field Tablet'',
      JString ''Engine Monitor''] \<and>
   map name (fetchAssets (example_browser (Some ''token'')) []) = [JString ''Pump 7'']"
proof -
  have h: "getItem (example_browser None) ''forsee_access_token'' = Inr None"
    by (simp add: example_browser_def)
  have other: "map name (fetchAssets (example_browser (Some ''token'')) []) = [JString ''Pump 7'']"
    by code_simp
  from fetchAssets_without_token [OF h, of "[]"] h other show ?thesis
    by simp
qed

text \<open>
  C8. The icon of a type given as text is decided by the lower-cased text alone,
  by the first of these that applies: it contains \<^verbatim>\<open>turbine\<close>, Monitor; it contains
  \<^verbatim>\<open>control\<close>, Cpu; it contains \<^verbatim>\<open>tablet\<close> or \<^verbatim>\<open>mobile\<close>, Smartphone; it contains
  \<^verbatim>\<open>monitor\<close> or \<^verbatim>\<open>computer\<close>, Laptop; otherwise Activity. A missing type
  (undefined or null) gives Activity. Two types that differ only in the case of
  their letters get the same icon.
\<close>

theorem getIconForAssetType_by_substring:
  "getIconForAssetType (JString s) =
     Inr (if \<exists>u v. toLowerCase s = u @ ''turbine'' @ v then Monitor
          else if \<exists>u v. toLowerCase s = u @ ''control'' @ v then Cpu
          else if (\<exists>u v. toLowerCase s = u @ ''tablet'' @ v) \<or>
                  (\<exists>u v. toLowerCase s = u @ ''mobile'' @ v) then Smartphone
          else if (\<exists>u v. toLowerCase s = u @ ''monitor'' @ v) \<or>
                  (\<exists>u v. toLowerCase s = u @ ''computer'' @ v) then Laptop
          else Activity) \<and>
   getIconForAssetType JUndefined = Inr Activity \<and>
   getIconForAssetType JNull = Inr Activity \<and>
   (toLowerCase s = toLowerCase s' \<longrightarrow>
      getIconForAssetType (JString s) = getIconForAssetType (JString s'))"
proof -
  have str: "getIconForAssetType (JString t) =
     Inr (if str_includes (toLowerCase t) ''turbine'' then Monitor
          else if str_includes (toLowerCase t) ''control'' then Cpu
          else if str_includes (toLowerCase t) ''tablet'' \<or>
                  str_includes (toLowerCase t) ''mobile'' then Smartphone
          else if str_includes (toLowerCase t) ''monitor'' \<or>
                  str_includes (toLowerCase t) ''computer'' then Laptop
          else Activity)" for t
    by (simp add: getIconForAssetType_def Let_def)
  have none: "getIconForAssetType JUndefined = Inr Activity" "getIconForAssetType JNull = Inr Activity"
    by (simp_all add: getIconForAssetType_def)
  show ?thesis
    unfolding str_includes_iff [symmetric] using none by (simp add: str)
qed

theorem getIconForAssetType_by_substring_witness:
  "getIconForAssetType (JString ''Gas TURBINE'') = Inr Monitor \<and>
   getIconForAssetType (JString ''Flow Control Unit'') = Inr Cpu \<and>
   getIconForAssetType (JString ''Mobile'') = Inr Smartphone \<and>
   getIconForAssetType (JString ''computer'') = Inr Laptop \<and>
   getIconForAssetType (JString ''pump'') = Inr Activity \<and>
   toLowerCase ''Gas TURBINE'' = toLowerCase ''gas turbine'' \<and>
   getIconForAssetType (JString ''Gas TURBINE'') = getIconForAssetType (JString ''gas turbine'')"
proof -
  have l: "toLowerCase ''Gas TURBINE'' = ''gas turbine''"
    "toLowerCase ''gas turbine'' = ''gas turbine''"
    "toLowerCase ''Flow Control Unit'' = ''flow control unit''"
    "toLowerCase ''Mobile'' = ''mobile''"
    "toLowerCase ''computer'' = ''computer''"
    "toLowerCase ''pump'' = ''pump''"
    by code_simp+
  from getIconForAssetType_by_substring [of "''Gas TURBINE''" "''gas turbine''"]
    getIconForAssetType_by_substring [of "''Flow Control Unit''" "[]"]
    getIconForAssetType_by_substring [of "''Mobile''" "[]"]
    getIconForAssetType_by_substring [of "''computer''" "[]"]
    getIconForAssetType_by_substring [of "''pump''" "[]"]
  show ?thesis
    unfolding str_includes_iff [symmetric] l by auto
qed

text \<open>
  C10. \<^verbatim>\<open>removeDevice\<close> leaves the list as it is when the DELETE request fails,
  and removes the devices with the given id when it succeeds, so the list changes
  only after a successful request. \<^verbatim>\<open>addDevice\<close> leaves the list as it is when
  the POST request fails.
\<close>

theorem removeDevice_atomic:
  "(\<forall>e. api_delete env (''/assets/'' @ i) = Inl e \<longrightarrow> removeDevice env i devices = devices) \<and>
   (\<forall>r. api_delete env (''/assets/'' @ i) = Inr r \<longrightarrow>
      removeDevice env i devices = filter (\<lambda>d. dev_id d \<noteq> JString i) devices) \<and>
   (removeDevice env i devices \<noteq> devices \<longrightarrow> (\<exists>r. api_delete env (''/assets/'' @ i) = Inr r)) \<and>
   (\<forall>e. api_post env ''/assets/''
           (JObject [(''name'', new_name newDevice), (''type'', JString ''custom''),
                     (''description'', JString ''Added via Dashboard''),
                     (''status'', JString ''active'')]) = Inl e \<longrightarrow>
      addDevice env newDevice devices = devices)"
  by (cases "api_delete env (''/assets/'' @ i)") (auto simp: removeDevice_def addDevice_def)

theorem removeDevice_atomic_witness:
  "removeDevice offline_browser ''dev-02'' defaultDevices = defaultDevices \<and>
   addDevice offline_browser \<lparr>new_id = JString ''tmp'', new_name = JString ''Pump 8'', new_icon = None\<rparr>
     defaultDevices = defaultDevices \<and>
   map name (removeDevice (example_browser (Some ''token'')) ''dev-02'' defaultDevices) =
     [JString ''Turbine A-11'', JString ''Field Tablet'', JString ''Engine Monitor'']"
proof -
  have d: "api_delete offline_browser (''/assets/'' @ ''dev-02'') = Inl (Thrown (Some ''Network Error''))"
    by (simp add: offline_browser_def)
  have p: "api_post offline_browser ''/assets/''
           (JObject [(''name'', new_name \<lparr>new_id = JString ''tmp'', new_name = JString ''Pump 8'', new_icon = None\<rparr>),
                     (''type'', JString ''custom''),
                     (''description'', JString ''Added via Dashboard''),
                     (''status'', JString ''active'')]) = Inl (Thrown (Some ''Network Error''))"
    by (simp add: offline_browser_def)
  have r: "api_delete (example_browser (Some ''token'')) (''/assets/'' @ ''dev-02'') = Inr JNull"
    by (simp add: example_browser_def)
  have f: "map name (filter (\<lambda>d. dev_id d \<noteq> JString ''dev-02'') defaultDevices) =
     [JString ''Turbine A-11'', JString ''Field Tablet'', JString ''Engine Monitor'']"
    by (simp add: defaultDevices_def)
  from removeDevice_atomic [of offline_browser "''dev-02''" defaultDevices
      "\<lparr>new_id = JString ''tmp'', new_name = JString ''Pump 8'', new_icon = None\<rparr>"]
    removeDevice_atomic [of "example_browser (Some ''token'')" "''dev-02''" defaultDevices
      "\<lparr>new_id = JString ''tmp'', new_name = JString ''Pump 8'', new_icon = None\<rparr>"]
  show ?thesis
    using d p r f by simp
qed

end
